theory Spec2Isabelle
  imports Main "HOL-Library.Word"
begin

section \<open>JavaScript strings and numbers\<close>

text \<open>
  A JavaScript string is a sequence of UTF-16 code units, and \<open>length\<close>, \<open>charAt\<close>,
  \<open>charCodeAt\<close>, \<open>slice\<close> and the regular expressions of \<open>utils.js\<close> (none has the
  \<open>u\<close> flag) all count code units. A string is therefore a list of 16-bit words.
  \<open>js\<close> turns an Isabelle string literal into the code units of the same ASCII text.
\<close>

type_synonym jsstring = "16 word list"

definition js :: "string \<Rightarrow> jsstring" where
  "js s = map of_char s"

text \<open>
  The numbers that occur here are integers, or \<open>NaN\<close> where a string position is out of
  range (\<open>charCodeAt\<close>).
\<close>

datatype js_number = NaN | Num int

text \<open>\<open>String.prototype.charAt\<close>: the empty string when the position is out of range.\<close>

definition charAt :: "jsstring \<Rightarrow> nat \<Rightarrow> jsstring" where
  "charAt s pos = (if pos < length s then [s ! pos] else [])"

text \<open>\<open>String.prototype.charCodeAt\<close>: \<open>NaN\<close> when the position is out of range.\<close>

definition charCodeAt :: "jsstring \<Rightarrow> nat \<Rightarrow> js_number" where
  "charCodeAt s pos = (if pos < length s then Num (uint (s ! pos)) else NaN)"

text \<open>The binary \<open>-\<close> with an integer on the right: \<open>NaN - k\<close> is \<open>NaN\<close>.\<close>

fun minus_number :: "js_number \<Rightarrow> int \<Rightarrow> js_number" where
  "minus_number NaN k = NaN"
| "minus_number (Num n) k = Num (n - k)"

text \<open>
  \<open>String.fromCharCode\<close> with one argument: the argument goes through \<open>ToUint16\<close>, which
  sends \<open>NaN\<close> to 0 and reduces an integer modulo \<open>2 ^ 16\<close>.
\<close>

fun fromCharCode :: "js_number \<Rightarrow> jsstring" where
  "fromCharCode NaN = [0]"
| "fromCharCode (Num n) = [word_of_int n]"

text \<open>
  The position of the first occurrence of \<open>pat\<close> in \<open>s\<close>; the empty pattern occurs at
  position 0 of every string, the empty one included.
\<close>

fun indexOf :: "jsstring \<Rightarrow> jsstring \<Rightarrow> nat option" where
  "indexOf [] pat = (if pat = [] then Some 0 else None)"
| "indexOf (c # cs) pat =
     (if take (length pat) (c # cs) = pat then Some 0 else map_option Suc (indexOf cs pat))"

text \<open>
  \<open>GetSubstitution\<close> for a string pattern (no capture groups): in the replacement text
  \<open>$$\<close> is a dollar sign, \<open>$&\<close> the matched text, \<open>$`\<close> the text before the match and
  \<open>$'\<close> the text after it; every other character, a lone or final \<open>$\<close> included, stands
  for itself.
\<close>

fun getSubstitution :: "jsstring \<Rightarrow> jsstring \<Rightarrow> jsstring \<Rightarrow> jsstring \<Rightarrow> jsstring" where
  "getSubstitution matched preceding following (c # d # r) =
     (if c = 0x24 \<and> d = 0x24 then 0x24 # getSubstitution matched preceding following r
      else if c = 0x24 \<and> d = 0x26 then matched @ getSubstitution matched preceding following r
      else if c = 0x24 \<and> d = 0x60 then preceding @ getSubstitution matched preceding following r
      else if c = 0x24 \<and> d = 0x27 then following @ getSubstitution matched preceding following r
      else c # getSubstitution matched preceding following (d # r))"
| "getSubstitution matched preceding following r = r"

text \<open>
  \<open>String.prototype.replace\<close> with a string pattern: only the first occurrence is
  replaced, and a string without an occurrence is returned as it is.
\<close>

definition replace :: "jsstring \<Rightarrow> jsstring \<Rightarrow> jsstring \<Rightarrow> jsstring" where
  "replace s pat replacement =
     (case indexOf s pat of
        None \<Rightarrow> s
      | Some p \<Rightarrow>
          (let preceding = take p s; following = drop (p + length pat) s
           in preceding @ getSubstitution pat preceding following replacement @ following))"

text \<open>
  \<open>String.prototype.slice\<close>: a negative bound counts from the end of the string, and
  both bounds are clamped to the string.
\<close>

definition slice :: "jsstring \<Rightarrow> int \<Rightarrow> int \<Rightarrow> jsstring" where
  "slice s start finish =
     (let len = int (length s);
          from = (if start < 0 then max (len + start) 0 else min start len);
          to = (if finish < 0 then max (len + finish) 0 else min finish len)
      in if from < to then take (nat (to - from)) (drop (nat from) s) else [])"

text \<open>The decimal digits of a natural number, and the decimal numeral of an integer.\<close>

function digits :: "nat \<Rightarrow> jsstring" where
  "digits n = (if n < 10 then [of_nat (48 + n)] else digits (n div 10) @ [of_nat (48 + n mod 10)])"
  by pat_completeness auto
termination
  by (relation "measure id") auto

declare digits.simps [simp del]

definition decimal :: "int \<Rightarrow> jsstring" where
  "decimal i = (if i < 0 then 0x2D # digits (nat (- i)) else digits (nat i))"

text \<open>
  \<open>Number::toString\<close> on an integer. A safe integer (below \<open>2 ^ 53\<close> in absolute value)
  is written as its decimal numeral. Beyond that range a Number is written with the
  shortest digits that read back as the same value, and in exponent notation from
  \<open>10 ^ 21\<close> (\<open>2 ^ 64\<close> is \<open>18446744073709552000\<close>, \<open>10 ^ 21\<close> is \<open>1e+21\<close>); that text
  is not computed here: it is what the parameter \<open>beyond\<close> gives.
\<close>

definition numberToString :: "(int \<Rightarrow> jsstring) \<Rightarrow> int \<Rightarrow> jsstring" where
  "numberToString beyond i = (if \<bar>i\<bar> < 2 ^ 53 then decimal i else beyond i)"

section \<open>The formatting helpers of \<open>utils.js\<close>\<close>

text \<open>
  \<open>switch\<close> compares with \<open>===\<close>; the class id and the release type are the integers of
  the CurseForge API.
\<close>

definition classIdToUrlString :: "int \<Rightarrow> jsstring" where
  "classIdToUrlString classId =
     (if classId = 5 then js ''bukkit-plugins''
      else if classId = 6 then js ''mc-mods''
      else if classId = 12 then js ''texture-packs''
      else if classId = 17 then js ''worlds''
      else if classId = 4471 then js ''modpacks''
      else if classId = 4546 then js ''customization''
      else if classId = 4559 then js ''mc-addons''
      else js ''unknownClassIdValue'')"

definition releaseTypeToString :: "int \<Rightarrow> jsstring" where
  "releaseTypeToString releaseType =
     (if releaseType = 1 then js ''release''
      else if releaseType = 2 then js ''beta''
      else if releaseType = 3 then js ''alpha''
      else js ''unknownReleaseType'')"

definition capitalize :: "jsstring \<Rightarrow> jsstring" where
  "capitalize string =
     replace string (charAt string 0) (fromCharCode (minus_number (charCodeAt string 0) 32))"

subsection \<open>The regular expressions of \<open>formatHtmlChangelog\<close>\<close>

text \<open>
  Without the \<open>s\<close> flag the dot matches every code unit but the four line terminators;
  \<open>\w\<close> is \<open>[A-Za-z0-9_]\<close>.
\<close>

definition lineTerminator :: "16 word \<Rightarrow> bool" where
  "lineTerminator c \<longleftrightarrow> c = 0x0A \<or> c = 0x0D \<or> c = 0x2028 \<or> c = 0x2029"

definition wordChar :: "16 word \<Rightarrow> bool" where
  "wordChar c \<longleftrightarrow>
     (0x61 \<le> c \<and> c \<le> 0x7A) \<or> (0x41 \<le> c \<and> c \<le> 0x5A) \<or> (0x30 \<le> c \<and> c \<le> 0x39) \<or> c = 0x5F"

text \<open>
  Each matcher tries its expression at the start of the text and returns the length of
  the match. \<open>/<br>/\<close> is the four characters themselves.
\<close>

definition match_br :: "jsstring \<Rightarrow> nat option" where
  "match_br s = (if take 4 s = js ''<br>'' then Some 4 else None)"

text \<open>
  \<open>.*?>\<close>: the star is lazy, so at every position \<open>>\<close> is tried first and ends the
  match; otherwise the dot takes one character, and fails on a line terminator.
\<close>

fun lazy_dot_gt :: "jsstring \<Rightarrow> nat option" where
  "lazy_dot_gt [] = None"
| "lazy_dot_gt (c # cs) =
     (if c = 0x3E then Some 1
      else if lineTerminator c then None
      else map_option Suc (lazy_dot_gt cs))"

definition match_tag :: "jsstring \<Rightarrow> nat option" where
  "match_tag s =
     (case s of [] \<Rightarrow> None
      | c # cs \<Rightarrow> if c = 0x3C then map_option Suc (lazy_dot_gt cs) else None)"

text \<open>\<open>\w*?;\<close>: \<open>;\<close> is tried first; otherwise \<open>\w\<close> takes one word character.\<close>

fun lazy_word_semicolon :: "jsstring \<Rightarrow> nat option" where
  "lazy_word_semicolon [] = None"
| "lazy_word_semicolon (c # cs) =
     (if c = 0x3B then Some 1
      else if wordChar c then map_option Suc (lazy_word_semicolon cs)
      else None)"

definition match_entity :: "jsstring \<Rightarrow> nat option" where
  "match_entity s =
     (case s of [] \<Rightarrow> None
      | c # cs \<Rightarrow> if c = 0x26 then map_option Suc (lazy_word_semicolon cs) else None)"

text \<open>
  \<open>String.prototype.replace\<close> with a regular expression that has the \<open>g\<close> flag and
  matches no empty text: the text is scanned from the left; where the expression
  matches, the replacement is written and the scan goes on after the match, elsewhere
  the character is kept. (The two replacement texts of \<open>formatHtmlChangelog\<close> contain no
  \<open>$\<close>, so they are written as they are.)
\<close>

fun replace_global :: "(jsstring \<Rightarrow> nat option) \<Rightarrow> jsstring \<Rightarrow> jsstring \<Rightarrow> jsstring" where
  "replace_global m replacement [] = []"
| "replace_global m replacement (c # cs) =
     (case m (c # cs) of
        None \<Rightarrow> c # replace_global m replacement cs
      | Some n \<Rightarrow> replacement @ replace_global m replacement (drop (n - 1) cs))"

definition formatHtmlChangelog :: "jsstring \<Rightarrow> jsstring" where
  "formatHtmlChangelog changelog =
     replace_global match_entity []
       (replace_global match_tag []
         (replace_global match_br [0x0A] changelog))"

definition trimChangelog :: "jsstring \<Rightarrow> int \<Rightarrow> jsstring" where
  "trimChangelog changelog maxLength =
     (let formattedChangelog = formatHtmlChangelog changelog
      in if int (length formattedChangelog) > maxLength
         then slice formattedChangelog 0 (maxLength - 3) @ js ''...''
         else formattedChangelog)"

text \<open>The two fixed tables keyed by the platform tag.\<close>

record author_data =
  author_name :: jsstring
  author_iconURL :: "jsstring option"
  author_url :: "jsstring option"

definition embedAuthorData :: "jsstring \<Rightarrow> author_data" where
  "embedAuthorData platform =
     (if platform = js ''curseforge'' then
        \<lparr>author_name = js ''From curseforge.com'',
         author_iconURL = Some (js ''https://i.imgur.com/uA9lFcz.png''),
         author_url = Some (js ''https://curseforge.com'')\<rparr>
      else if platform = js ''modrinth'' then
        \<lparr>author_name = js ''From modrinth.com'',
         author_iconURL = Some (js ''https://i.imgur.com/2XDguyk.png''),
         author_url = Some (js ''https://modrinth.com'')\<rparr>
      else
        \<lparr>author_name = js ''From unknown source'', author_iconURL = None, author_url = None\<rparr>)"

definition embedColorData :: "jsstring \<Rightarrow> jsstring" where
  "embedColorData platform =
     (if platform = js ''curseforge'' then js ''#f87a1b''
      else if platform = js ''modrinth'' then js ''#1bd96a''
      else js ''DarkGreen'')"

section \<open>The data of \<open>sendUpdateEmbed\<close>\<close>

text \<open>
  \<open>requestedProject\<close> is the project as the platform's API returned it. The record has
  the properties that either branch reads: \<open>id\<close> and \<open>slug\<close> (both platforms),
  \<open>latestFiles\<close>, \<open>logo\<close>, \<open>classId\<close> and \<open>latestFilesIndexes\<close> (CurseForge),
  \<open>icon_url\<close> and \<open>project_type\<close> (Modrinth). The id is handed to the API client
  untouched, so its type is left open. An array that is missing counts as the empty
  one (reading an element's property raises \<open>TypeError\<close> for both), and a \<open>logo\<close> that
  is \<open>null\<close> or missing is \<open>None\<close>.
\<close>

record cf_file =
  file_id :: int
  fileDate :: jsstring
  displayName :: jsstring
  fileName :: jsstring
  releaseType :: int

record cf_file_index =
  fileId :: int

record cf_logo =
  logo_url :: jsstring

record 'i requested_project =
  project_id :: 'i
  latestFiles :: "cf_file list"
  logo :: "cf_logo option"
  classId :: int
  slug :: jsstring
  latestFilesIndexes :: "cf_file_index list"
  icon_url :: jsstring
  project_type :: jsstring

text \<open>\<open>dbProject\<close>, the tracked project's row; the type of its key is left open.\<close>

record 'p db_project =
  platform :: jsstring
  db_id :: 'p
  db_name :: jsstring

text \<open>An upstream response, and what \<open>getJSONResponse\<close> reads from its body.\<close>

record 'b response =
  statusCode :: int
  body :: 'b

record changelog_payload =
  data :: jsstring

record mr_version =
  mr_changelog :: jsstring
  date_published :: jsstring
  mr_name :: jsstring
  version_number :: jsstring
  version_type :: jsstring

text \<open>\<open>versionData\<close>, the record that both branches of the \<open>switch\<close> build.\<close>

record version_data =
  changelog :: jsstring
  date :: jsstring
  iconURL :: jsstring
  name :: jsstring
  number :: jsstring
  type :: jsstring
  url :: jsstring

text \<open>A row of \<open>TrackedProjects\<close> and a row of \<open>Guilds\<close>.\<close>

record tracked_project =
  guildId :: jsstring
  channelId :: jsstring

record guild_settings =
  notificationStyle :: jsstring
  changelogMaxLength :: int

text \<open>
  The message handed to \<open>channel.send\<close>: what the \<open>EmbedBuilder\<close>, \<open>ActionRowBuilder\<close>
  and \<open>ButtonBuilder\<close> calls have set. \<open>timestamp\<close> records that \<open>setTimestamp()\<close> was
  called (it stores the time of the call).
\<close>

record footer_data =
  footer_text :: jsstring
  footer_iconURL :: "jsstring option"

record embed =
  author :: "author_data option"
  color :: "jsstring option"
  description :: "jsstring option"
  embed_fields :: "(jsstring \<times> jsstring) list"
  footer :: "footer_data option"
  thumbnail :: "jsstring option"
  timestamp :: bool
  title :: "jsstring option"
  embed_url :: "jsstring option"

datatype button_style = Link

record button =
  label :: jsstring
  style :: button_style
  button_url :: jsstring

record message =
  embeds :: "embed list"
  components :: "button list list"

definition EmbedBuilder :: embed where
  "EmbedBuilder =
     \<lparr>author = None, color = None, description = None, embed_fields = [], footer = None,
      thumbnail = None, timestamp = False, title = None, embed_url = None\<rparr>"

text \<open>
  The guild cache of the client maps a guild id to the guild, and the channel cache of a
  guild maps a channel id to the channel; \<open>get\<close> on a missing key is \<open>undefined\<close>, here
  \<open>None\<close>. The type of a channel is left open.
\<close>

type_synonym 'c guild = "jsstring \<Rightarrow> 'c option"

type_synonym 'c client = "jsstring \<Rightarrow> 'c guild option"

text \<open>
  The modules that \<open>utils.js\<close> requires are not part of it, so what they answer is a
  parameter: the two API clients (\<open>None\<close> is the \<open>null\<close> of a timeout),
  \<open>getJSONResponse\<close> at the body of either API, the two database models, whether
  \<open>channel.send\<close> succeeds, \<open>codeBlock\<close> of discord.js, and the \<open>format('MMM D, YYYY')\<close>
  and \<open>unix()\<close> of \<open>dayjs\<close>. With them comes \<open>toString_unsafe\<close>, the text that the
  runtime writes for an integer that is not a safe integer (see \<open>numberToString\<close>).
\<close>

record ('i, 'p, 'b, 'c) collaborators =
  getModFileChangelog :: "'i \<Rightarrow> int \<Rightarrow> 'b response option"
  listProjectVersions :: "'i \<Rightarrow> 'b response option"
  getJSONResponse_changelog :: "'b \<Rightarrow> changelog_payload"
  getJSONResponse_versions :: "'b \<Rightarrow> mr_version list"
  findAll :: "'p \<Rightarrow> tracked_project list"
  findByPk :: "jsstring \<Rightarrow> guild_settings option"
  send :: "'c \<Rightarrow> message \<Rightarrow> bool"
  codeBlock :: "jsstring \<Rightarrow> jsstring"
  dayjs_format :: "jsstring \<Rightarrow> jsstring"
  dayjs_unix :: "jsstring \<Rightarrow> js_number"
  toString_unsafe :: "int \<Rightarrow> jsstring"

text \<open>
  What an invocation does to the outside, in order: the calls of the API clients, the
  log lines, the database queries and the messages sent.
\<close>

datatype ('i, 'p, 'c) event =
    Call_getModFileChangelog 'i int
  | Call_listProjectVersions 'i
  | Warn jsstring
  | Debug version_data
  | Call_findAll 'p
  | Call_findByPk jsstring
  | Send 'c message

text \<open>
  The exceptions: \<open>TypeError\<close> for a property read on \<open>undefined\<close> or \<open>null\<close>, and
  \<open>Rejected\<close> for a \<open>channel.send\<close> that fails. Neither is caught in \<open>utils.js\<close>.
  The other awaited calls (the API clients, \<open>getJSONResponse\<close>, the database models)
  are taken to answer.
\<close>

datatype js_error = TypeError | Rejected

text \<open>
  A run yields its events and either the exception that ended it or its value.
  \<open>prepend\<close> puts the events that happened first in front of a run.
\<close>

type_synonym ('i, 'p, 'c, 'a) run = "('i, 'p, 'c) event list \<times> (js_error + 'a)"

definition prepend :: "('i, 'p, 'c) event list \<Rightarrow> ('i, 'p, 'c, 'a) run \<Rightarrow> ('i, 'p, 'c, 'a) run" where
  "prepend evs r = (evs @ fst r, snd r)"

text \<open>A template literal writes a number with \<open>Number::toString\<close>, and \<open>NaN\<close> as its name.\<close>

fun toString :: "(int \<Rightarrow> jsstring) \<Rightarrow> js_number \<Rightarrow> jsstring" where
  "toString beyond NaN = js ''NaN''"
| "toString beyond (Num i) = numberToString beyond i"

section \<open>\<open>sendUpdateEmbed\<close>\<close>

subsection \<open>The \<open>switch\<close> on the platform\<close>

text \<open>
  The CurseForge branch. The argument \<open>latestFiles[latestFiles.length - 1].id\<close> is
  evaluated before the call, so an empty \<open>latestFiles\<close> raises before anything is
  requested. The value \<open>None\<close> is the early \<open>return logger.warn(...)\<close>.
\<close>

definition versionData_curseforge ::
  "('i, 'p, 'b, 'c) collaborators \<Rightarrow> 'i requested_project \<Rightarrow> ('i, 'p, 'c, version_data option) run"
where
  "versionData_curseforge env requestedProject =
     (if latestFiles requestedProject = [] then ([], Inl TypeError)
      else
        let latestFile = last (latestFiles requestedProject);
            call = Call_getModFileChangelog (project_id requestedProject) (file_id latestFile)
        in case getModFileChangelog env (project_id requestedProject) (file_id latestFile) of
             None \<Rightarrow>
               ([call,
                 Warn (js ''A request to CurseForge timed out while getting a project file'' @ [0x27]
                         @ js ''s changelog'')],
                Inr None)
           | Some response \<Rightarrow>
               if statusCode response \<noteq> 200 then
                 ([call,
                   Warn (js ''Unexpected '' @ numberToString (toString_unsafe env) (statusCode response)
                           @ js '' status code while getting a project files'' @ [0x27]
                           @ js ''s changelog.'')],
                  Inr None)
               else
                 (let rawData = getJSONResponse_changelog env (body response)
                  in (case logo requestedProject of
                      None \<Rightarrow> ([call], Inl TypeError)
                    | Some projectLogo \<Rightarrow>
                        (case latestFilesIndexes requestedProject of
                           [] \<Rightarrow> ([call], Inl TypeError)
                         | firstIndex # _ \<Rightarrow>
                             let versionData =
                               \<lparr>changelog = data rawData,
                                date = fileDate latestFile,
                                iconURL = logo_url projectLogo,
                                name = displayName latestFile,
                                number = fileName latestFile,
                                type = capitalize (releaseTypeToString (releaseType latestFile)),
                                url = js ''https://www.curseforge.com/minecraft/''
                                        @ classIdToUrlString (classId requestedProject)
                                        @ js ''/'' @ slug requestedProject
                                        @ js ''/files/''
                                        @ numberToString (toString_unsafe env) (fileId firstIndex)\<rparr>
                             in ([call, Debug versionData], Inr (Some versionData))))))"

text \<open>The Modrinth branch; \<open>rawData[0]\<close> of an empty list is \<open>undefined\<close>.\<close>

definition versionData_modrinth ::
  "('i, 'p, 'b, 'c) collaborators \<Rightarrow> 'i requested_project \<Rightarrow> ('i, 'p, 'c, version_data option) run"
where
  "versionData_modrinth env requestedProject =
     (let call = Call_listProjectVersions (project_id requestedProject)
      in case listProjectVersions env (project_id requestedProject) of
           None \<Rightarrow>
             ([call,
               Warn (js ''A request to Modrinth timed out while getting a project'' @ [0x27]
                       @ js ''s version information'')],
              Inr None)
         | Some response \<Rightarrow>
             if statusCode response \<noteq> 200 then
               ([call,
                 Warn (js ''Unexpected '' @ numberToString (toString_unsafe env) (statusCode response)
                         @ js '' status code while getting a project'' @ [0x27]
                         @ js ''s version information.'')],
                Inr None)
             else
               (case getJSONResponse_versions env (body response) of
                  [] \<Rightarrow> ([call], Inl TypeError)
                | firstVersion # _ \<Rightarrow>
                    let versionData =
                      \<lparr>changelog = mr_changelog firstVersion,
                       date = date_published firstVersion,
                       iconURL = icon_url requestedProject,
                       name = mr_name firstVersion,
                       number = version_number firstVersion,
                       type = capitalize (version_type firstVersion),
                       url = js ''https://modrinth.com/'' @ project_type requestedProject
                               @ js ''/'' @ slug requestedProject
                               @ js ''/version/'' @ version_number firstVersion\<rparr>
                    in ([call, Debug versionData], Inr (Some versionData))))"

definition sendUpdateEmbed_versionData ::
  "('i, 'p, 'b, 'c) collaborators \<Rightarrow> 'i requested_project \<Rightarrow> 'p db_project
     \<Rightarrow> ('i, 'p, 'c, version_data option) run"
where
  "sendUpdateEmbed_versionData env requestedProject dbProject =
     (if platform dbProject = js ''curseforge'' then versionData_curseforge env requestedProject
      else if platform dbProject = js ''modrinth'' then versionData_modrinth env requestedProject
      else
        ([Warn (js ''Update notification functionality has not been implemented for this platform yet.'')],
         Inr None))"

subsection \<open>The two styles of message\<close>

definition compactMessage ::
  "('i, 'p, 'b, 'c) collaborators \<Rightarrow> 'p db_project \<Rightarrow> version_data \<Rightarrow> message"
where
  "compactMessage env dbProject versionData =
     \<lparr>embeds =
        [EmbedBuilder
           \<lparr>color := Some (embedColorData (platform dbProject)),
            description := Some (number versionData @ js '' ('' @ type versionData @ js '')''),
            footer :=
              Some \<lparr>footer_text = dayjs_format env (date versionData),
                    footer_iconURL = author_iconURL (embedAuthorData (platform dbProject))\<rparr>,
            title := Some (db_name dbProject @ js '' '' @ name versionData),
            embed_url := Some (url versionData)\<rparr>],
      components = []\<rparr>"

definition defaultMessage ::
  "('i, 'p, 'b, 'c) collaborators \<Rightarrow> 'p db_project \<Rightarrow> version_data \<Rightarrow> guild_settings \<Rightarrow> message"
where
  "defaultMessage env dbProject versionData guildSettings =
     \<lparr>embeds =
        [EmbedBuilder
           \<lparr>author := Some (embedAuthorData (platform dbProject)),
            color := Some (embedColorData (platform dbProject)),
            description :=
              Some (js ''**Changelog**: ''
                      @ codeBlock env
                          (trimChangelog (changelog versionData) (changelogMaxLength guildSettings))),
            embed_fields :=
              [(js ''Version Name'', name versionData),
               (js ''Version Number'', number versionData),
               (js ''Release Type'', type versionData),
               (js ''Date Published'',
                js ''<t:'' @ toString (toString_unsafe env) (dayjs_unix env (date versionData))
                  @ js '':f>'')],
            thumbnail := Some (iconURL versionData),
            timestamp := True,
            title := Some (db_name dbProject @ js '' has been updated'')\<rparr>],
      components =
        [[\<lparr>label = js ''View on '' @ capitalize (platform dbProject),
           style = Link,
           button_url = url versionData\<rparr>]]\<rparr>"

text \<open>The \<open>switch\<close> on \<open>guildSettings.notificationStyle\<close>.\<close>

definition notificationMessage ::
  "('i, 'p, 'b, 'c) collaborators \<Rightarrow> 'p db_project \<Rightarrow> version_data \<Rightarrow> guild_settings \<Rightarrow> message"
where
  "notificationMessage env dbProject versionData guildSettings =
     (if notificationStyle guildSettings = js ''compact''
      then compactMessage env dbProject versionData
      else defaultMessage env dbProject versionData guildSettings)"

subsection \<open>The loop over the tracked rows\<close>

text \<open>
  One equation per turn of \<open>for (const trackedProject of trackedProjects)\<close>. A guild or
  channel that the cache does not have is a warning and \<open>continue\<close>. A guild without a
  settings row makes \<open>guildSettings.notificationStyle\<close> raise, and a send that fails
  rejects; both end the loop.
\<close>

fun sendUpdateEmbed_loop ::
  "('i, 'p, 'b, 'c) collaborators \<Rightarrow> 'c client \<Rightarrow> 'p db_project \<Rightarrow> version_data
     \<Rightarrow> tracked_project list \<Rightarrow> ('i, 'p, 'c, unit) run"
where
  "sendUpdateEmbed_loop env client dbProject versionData [] = ([], Inr ())"
| "sendUpdateEmbed_loop env client dbProject versionData (trackedProject # trackedProjects) =
     (case client (guildId trackedProject) of
        None \<Rightarrow>
          prepend
            [Warn (js ''Could not find guild with ID '' @ guildId trackedProject
                     @ js '' in cache. Update notification not sent.'')]
            (sendUpdateEmbed_loop env client dbProject versionData trackedProjects)
      | Some guild \<Rightarrow>
          (case guild (channelId trackedProject) of
             None \<Rightarrow>
               prepend
                 [Warn (js ''Could not find channel with ID '' @ channelId trackedProject
                          @ js '' in cache. Update notification not sent.'')]
                 (sendUpdateEmbed_loop env client dbProject versionData trackedProjects)
           | Some channel \<Rightarrow>
               (case findByPk env (guildId trackedProject) of
                  None \<Rightarrow> ([Call_findByPk (guildId trackedProject)], Inl TypeError)
                | Some guildSettings \<Rightarrow>
                    let sent =
                      [Call_findByPk (guildId trackedProject),
                       Send channel (notificationMessage env dbProject versionData guildSettings)]
                    in if send env channel
                            (notificationMessage env dbProject versionData guildSettings)
                       then prepend sent
                              (sendUpdateEmbed_loop env client dbProject versionData trackedProjects)
                       else (sent, Inl Rejected))))"

subsection \<open>The function\<close>

definition sendUpdateEmbed ::
  "('i, 'p, 'b, 'c) collaborators \<Rightarrow> 'i requested_project \<Rightarrow> 'p db_project \<Rightarrow> 'c client
     \<Rightarrow> ('i, 'p, 'c, unit) run"
where
  "sendUpdateEmbed env requestedProject dbProject client =
     (case sendUpdateEmbed_versionData env requestedProject dbProject of
        (evs, Inl e) \<Rightarrow> (evs, Inl e)
      | (evs, Inr None) \<Rightarrow> (evs, Inr ())
      | (evs, Inr (Some versionData)) \<Rightarrow>
          prepend (evs @ [Call_findAll (db_id dbProject)])
            (sendUpdateEmbed_loop env client dbProject versionData (findAll env (db_id dbProject))))"

section \<open>Notions used to state the properties\<close>

text \<open>The kinds of event that the properties count.\<close>

fun is_upstream_call :: "('i, 'p, 'c) event \<Rightarrow> bool" where
  "is_upstream_call (Call_getModFileChangelog _ _) = True"
| "is_upstream_call (Call_listProjectVersions _) = True"
| "is_upstream_call _ = False"

fun is_warning :: "('i, 'p, 'c) event \<Rightarrow> bool" where
  "is_warning (Warn _) = True"
| "is_warning _ = False"

fun is_send :: "('i, 'p, 'c) event \<Rightarrow> bool" where
  "is_send (Send _ _) = True"
| "is_send _ = False"

fun is_query :: "('i, 'p, 'c) event \<Rightarrow> bool" where
  "is_query (Call_findAll _) = True"
| "is_query (Call_findByPk _) = True"
| "is_query _ = False"

text \<open>
  The platform tag is one of the two that the \<open>switch\<close> implements, the upstream call
  is made and answers with status 200, and the payloads have the elements that the
  branch reads.
\<close>

definition upstream_succeeds ::
  "('i, 'p, 'b, 'c) collaborators \<Rightarrow> 'i requested_project \<Rightarrow> 'p db_project \<Rightarrow> bool"
where
  "upstream_succeeds env requestedProject dbProject \<longleftrightarrow>
     (platform dbProject = js ''curseforge'' \<and>
      latestFiles requestedProject \<noteq> [] \<and>
      (case getModFileChangelog env (project_id requestedProject)
              (file_id (last (latestFiles requestedProject))) of
         None \<Rightarrow> False
       | Some response \<Rightarrow> statusCode response = 200) \<and>
      logo requestedProject \<noteq> None \<and>
      latestFilesIndexes requestedProject \<noteq> [])
     \<or>
     (platform dbProject = js ''modrinth'' \<and>
      (case listProjectVersions env (project_id requestedProject) of
         None \<Rightarrow> False
       | Some response \<Rightarrow>
           statusCode response = 200 \<and> getJSONResponse_versions env (body response) \<noteq> []))"

text \<open>
  The platform tag is one of the two, the upstream call is made, and it times out or
  answers with a status other than 200.
\<close>

definition upstream_fails ::
  "('i, 'p, 'b, 'c) collaborators \<Rightarrow> 'i requested_project \<Rightarrow> 'p db_project \<Rightarrow> bool"
where
  "upstream_fails env requestedProject dbProject \<longleftrightarrow>
     (platform dbProject = js ''curseforge'' \<and>
      latestFiles requestedProject \<noteq> [] \<and>
      (case getModFileChangelog env (project_id requestedProject)
              (file_id (last (latestFiles requestedProject))) of
         None \<Rightarrow> True
       | Some response \<Rightarrow> statusCode response \<noteq> 200))
     \<or>
     (platform dbProject = js ''modrinth'' \<and>
      (case listProjectVersions env (project_id requestedProject) of
         None \<Rightarrow> True
       | Some response \<Rightarrow> statusCode response \<noteq> 200))"

text \<open>The cache has no guild, or the guild has no channel, for a tracked row.\<close>

definition not_in_cache :: "'c client \<Rightarrow> tracked_project \<Rightarrow> bool" where
  "not_in_cache client trackedProject \<longleftrightarrow>
     (case client (guildId trackedProject) of
        None \<Rightarrow> True
      | Some guild \<Rightarrow> guild (channelId trackedProject) = None)"

text \<open>The warning that the loop logs for such a row.\<close>

definition not_in_cache_warning :: "'c client \<Rightarrow> tracked_project \<Rightarrow> jsstring" where
  "not_in_cache_warning client trackedProject =
     (if client (guildId trackedProject) = None
      then js ''Could not find guild with ID '' @ guildId trackedProject
             @ js '' in cache. Update notification not sent.''
      else js ''Could not find channel with ID '' @ channelId trackedProject
             @ js '' in cache. Update notification not sent.'')"


text \<open>
  Word characters and then a reference \<open>&\<close>, word characters, \<open>;\<close> stand at the start of
  the text; and: somewhere in the text an \<open>&\<close> is followed by word characters and then
  a reference (that \<open>&\<close> starts no reference itself).
\<close>

fun words_then_reference :: "jsstring \<Rightarrow> bool" where
  "words_then_reference [] = False"
| "words_then_reference (c # cs) =
     (match_entity (c # cs) \<noteq> None \<or> (wordChar c \<and> words_then_reference cs))"

fun reference_after_unfinished :: "jsstring \<Rightarrow> bool" where
  "reference_after_unfinished [] = False"
| "reference_after_unfinished (c # cs) =
     ((c = 0x26 \<and> words_then_reference cs) \<or> reference_after_unfinished cs)"

subsection \<open>A CurseForge update with three tracked rows\<close>

text \<open>
  A project with two files, tracked by three rows: a guild with the compact style, a
  guild that the cache does not have, and a guild with the default style. Ids are
  integers, a body is its text, and a channel is named by a string. Every number of
  the example is a safe integer, so \<open>toString_unsafe\<close> is never asked.
\<close>

definition example_project :: "int requested_project" where
  "example_project =
     \<lparr>project_id = 238222,
      latestFiles =
        [\<lparr>file_id = 4000, fileDate = js ''2023-04-01T10:00:00Z'', displayName = js ''Example 1.1.0'',
          fileName = js ''example-1.1.0.jar'', releaseType = 1\<rparr>,
         \<lparr>file_id = 4001, fileDate = js ''2023-05-01T10:00:00Z'', displayName = js ''Example 1.2.0'',
          fileName = js ''example-1.2.0.jar'', releaseType = 2\<rparr>],
      logo = Some \<lparr>logo_url = js ''https://media.forgecdn.net/logo.png''\<rparr>,
      classId = 6,
      slug = js ''example'',
      latestFilesIndexes = [\<lparr>fileId = 4002\<rparr>, \<lparr>fileId = 4001\<rparr>],
      icon_url = [],
      project_type = []\<rparr>"

definition example_dbProject :: "int db_project" where
  "example_dbProject = \<lparr>platform = js ''curseforge'', db_id = 7, db_name = js ''Example''\<rparr>"

definition example_rows :: "tracked_project list" where
  "example_rows =
     [\<lparr>guildId = js ''g1'', channelId = js ''c1''\<rparr>,
      \<lparr>guildId = js ''g2'', channelId = js ''c2''\<rparr>,
      \<lparr>guildId = js ''g3'', channelId = js ''c3''\<rparr>]"

definition example_env :: "(int, int, jsstring, jsstring) collaborators" where
  "example_env =
     \<lparr>getModFileChangelog =
        (\<lambda>projectId fileId.
           if projectId = 238222 \<and> fileId = 4001
           then Some \<lparr>statusCode = 200, body = js ''Fixed bug<br>Added <b>feature</b>''\<rparr>
           else Some \<lparr>statusCode = 404, body = []\<rparr>),
      listProjectVersions = (\<lambda>projectId. None),
      getJSONResponse_changelog = (\<lambda>b. \<lparr>data = b\<rparr>),
      getJSONResponse_versions = (\<lambda>b. []),
      findAll = (\<lambda>projectId. if projectId = 7 then example_rows else []),
      findByPk =
        (\<lambda>guild.
           if guild = js ''g1'' then Some \<lparr>notificationStyle = js ''compact'', changelogMaxLength = 4000\<rparr>
           else if guild = js ''g3'' then Some \<lparr>notificationStyle = js ''default'', changelogMaxLength = 12\<rparr>
           else None),
      send = (\<lambda>channel m. True),
      codeBlock = (\<lambda>s. [0x60, 0x60, 0x60, 0x0A] @ s @ [0x0A, 0x60, 0x60, 0x60]),
      dayjs_format = (\<lambda>d. js ''May 1, 2023''),
      dayjs_unix = (\<lambda>d. Num 1682935200),
      toString_unsafe = (\<lambda>i. js ''1e+21'')\<rparr>"

definition example_client :: "jsstring client" where
  "example_client =
     (\<lambda>guild.
        if guild = js ''g1'' then Some (\<lambda>channel. if channel = js ''c1'' then Some (js ''#updates'') else None)
        else if guild = js ''g3'' then Some (\<lambda>channel. if channel = js ''c3'' then Some (js ''#mods'') else None)
        else None)"

definition example_versionData :: version_data where
  "example_versionData =
     \<lparr>changelog = js ''Fixed bug<br>Added <b>feature</b>'',
      date = js ''2023-05-01T10:00:00Z'',
      iconURL = js ''https://media.forgecdn.net/logo.png'',
      name = js ''Example 1.2.0'',
      number = js ''example-1.2.0.jar'',
      type = js ''Beta'',
      url = js ''https://www.curseforge.com/minecraft/mc-mods/example/files/4002''\<rparr>"

section \<open>Properties of the formatting helpers\<close>

subsection \<open>\<open>classIdToUrlString\<close>\<close>

text \<open>
  Claim C8. \<open>classIdToUrlString\<close> maps the class ids 5, 6, 12, 17, 4471, 4546 and 4559 to
  \<open>bukkit-plugins\<close>, \<open>mc-mods\<close>, \<open>texture-packs\<close>, \<open>worlds\<close>, \<open>modpacks\<close>,
  \<open>customization\<close> and \<open>mc-addons\<close>, and every other class id to one fixed fallback
  literal that marks the id as unknown: the text \<open>unknownClassIdValue\<close>, which begins
  with \<open>unknown\<close>.
\<close>

theorem classIdToUrlString_table:
  "classIdToUrlString 5 = js ''bukkit-plugins'' \<and>
   classIdToUrlString 6 = js ''mc-mods'' \<and>
   classIdToUrlString 12 = js ''texture-packs'' \<and>
   classIdToUrlString 17 = js ''worlds'' \<and>
   classIdToUrlString 4471 = js ''modpacks'' \<and>
   classIdToUrlString 4546 = js ''customization'' \<and>
   classIdToUrlString 4559 = js ''mc-addons'' \<and>
   (code \<notin> {5, 6, 12, 17, 4471, 4546, 4559} \<longrightarrow>
      classIdToUrlString code = js ''unknownClassIdValue'' \<and>
      take 7 (classIdToUrlString code) = js ''unknown'')"
  by (simp add: classIdToUrlString_def js_def)

theorem classIdToUrlString_table_witness:
  "(99::int) \<notin> {5, 6, 12, 17, 4471, 4546, 4559} \<and>
   classIdToUrlString 99 = js ''unknownClassIdValue'' \<and>
   take 7 (classIdToUrlString 99) = js ''unknown''"
proof -
  have unlisted: "(99::int) \<notin> {5, 6, 12, 17, 4471, 4546, 4559}"
    by simp
  with classIdToUrlString_table [of 99] show ?thesis
    by blast
qed

subsection \<open>\<open>capitalize\<close>\<close>

text \<open>
  On a string that is not empty, \<open>capitalize\<close> replaces the first code unit by the one
  32 below it (modulo \<open>2 ^ 16\<close>) and keeps the rest: the first occurrence of the first
  character is the one at position 0, and a replacement of one character has no \<open>$\<close>
  pattern. For a lower-case letter of \<open>a\<close> to \<open>z\<close> that is the upper-case letter.
\<close>

lemma capitalize_Cons: "capitalize (c # cs) = (c - 32) # cs"
  by (simp add: capitalize_def replace_def charAt_def charCodeAt_def)

lemma capitalize_lower_case_modrinth: "capitalize (js ''modrinth'') = js ''Modrinth''"
  by (simp add: js_def capitalize_Cons)

text \<open>
  Claim C6 says that \<open>capitalize\<close> turns the first character of every string that is not
  empty into upper case and keeps the rest. The code subtracts 32 from the first code
  unit whatever it is, so a first character that is not a lower-case letter is damaged:
  \<open>capitalize("Modrinth")\<close> is \<open>"-odrinth"\<close>, where upper case would leave \<open>"Modrinth"\<close>
  as it is.
\<close>

theorem capitalize_Modrinth:
  "capitalize (js ''Modrinth'') = js ''-odrinth'' \<and>
   capitalize (js ''Modrinth'') \<noteq> js ''Modrinth''"
  by (simp add: js_def capitalize_Cons)

text \<open>
  Claim C9. \<open>capitalize("")\<close> does not fault. \<open>charAt(0)\<close> of the empty string is the
  empty string and \<open>charCodeAt(0)\<close> is \<open>NaN\<close>; \<open>NaN - 32\<close> is \<open>NaN\<close>, which
  \<open>String.fromCharCode\<close> turns into the code unit 0; the empty pattern is found at
  position 0 of the empty string. The call returns the string of the one code unit 0.
\<close>

theorem capitalize_empty: "capitalize (js []) = [0]"
  by (simp add: capitalize_def replace_def charAt_def charCodeAt_def js_def)

subsection \<open>\<open>trimChangelog\<close>\<close>

lemma slice_0_nonneg: "0 \<le> k \<Longrightarrow> slice s 0 k = take (nat k) s"
  by (auto simp: slice_def Let_def min_def)

lemma slice_0_neg: "k < 0 \<Longrightarrow> slice s 0 k = take (nat (int (length s) + k)) s"
  by (auto simp: slice_def Let_def max_def)

text \<open>
  Claim C5, amended. \<open>trimChangelog\<close> returns the stripped text unchanged when its length
  does not exceed \<open>maxLength\<close> (for every \<open>maxLength\<close>); when the length exceeds
  \<open>maxLength\<close> and \<open>maxLength\<close> is at least 3, it returns the first \<open>maxLength - 3\<close>
  characters of the stripped text followed by \<open>...\<close>, which are \<open>maxLength\<close> characters.
  In particular a stripped text of 20 characters and \<open>maxLength\<close> 10 give 10 characters
  that end in \<open>...\<close>, and a stripped text of 5 characters is returned unchanged.
\<close>

theorem trimChangelog_spec:
  "(int (length (formatHtmlChangelog txt)) \<le> maxLength \<longrightarrow>
      trimChangelog txt maxLength = formatHtmlChangelog txt) \<and>
   (int (length (formatHtmlChangelog txt)) > maxLength \<and> 3 \<le> maxLength \<longrightarrow>
      trimChangelog txt maxLength =
        take (nat (maxLength - 3)) (formatHtmlChangelog txt) @ js ''...'' \<and>
      int (length (trimChangelog txt maxLength)) = maxLength) \<and>
   (length (formatHtmlChangelog txt) = 20 \<longrightarrow>
      length (trimChangelog txt 10) = 10 \<and>
      drop 7 (trimChangelog txt 10) = js ''...'') \<and>
   (length (formatHtmlChangelog txt) = 5 \<longrightarrow>
      trimChangelog txt 10 = formatHtmlChangelog txt)"
  by (auto simp: trimChangelog_def Let_def slice_0_nonneg js_def)

theorem trimChangelog_spec_witness:
  "length (formatHtmlChangelog (js ''abcdefghijklmnopqrst'')) = 20 \<and>
   (10::int) < int (length (formatHtmlChangelog (js ''abcdefghijklmnopqrst''))) \<and> (3::int) \<le> 10 \<and>
   trimChangelog (js ''abcdefghijklmnopqrst'') 10 = js ''abcdefg...'' \<and>
   length (formatHtmlChangelog (js ''abcde'')) = 5 \<and>
   int (length (formatHtmlChangelog (js ''abcde''))) \<le> 10 \<and>
   trimChangelog (js ''abcde'') 10 = js ''abcde''"
proof -
  have long: "formatHtmlChangelog (js ''abcdefghijklmnopqrst'') = js ''abcdefghijklmnopqrst''"
    by (simp add: formatHtmlChangelog_def js_def match_br_def match_tag_def match_entity_def)
  have short: "formatHtmlChangelog (js ''abcde'') = js ''abcde''"
    by (simp add: formatHtmlChangelog_def js_def match_br_def match_tag_def match_entity_def)
  have l20: "length (js ''abcdefghijklmnopqrst'') = 20" and l5: "length (js ''abcde'') = 5"
    by (simp_all add: js_def)
  from trimChangelog_spec [of "js ''abcdefghijklmnopqrst''" 10]
  have "trimChangelog (js ''abcdefghijklmnopqrst'') 10
          = take 7 (js ''abcdefghijklmnopqrst'') @ js ''...''"
    by (simp add: long l20)
  moreover from trimChangelog_spec [of "js ''abcde''" 10]
  have "trimChangelog (js ''abcde'') 10 = js ''abcde''"
    by (simp add: short l5)
  ultimately show ?thesis
    by (simp add: long short l20 l5) (simp add: js_def)
qed

text \<open>
  Claim C5 as stated covers every \<open>maxLength\<close>. With \<open>maxLength\<close> 2 the stripped text
  \<open>abcd\<close> is too long, and its first \<open>2 - 3\<close> characters are none, yet the result is
  \<open>abc...\<close> and not \<open>...\<close>.
\<close>

theorem trimChangelog_short_limit_counterexample:
  "int (length (formatHtmlChangelog (js ''abcd''))) > 2 \<and>
   trimChangelog (js ''abcd'') 2 = js ''abc...'' \<and>
   trimChangelog (js ''abcd'') 2 \<noteq>
     take (nat (2 - 3)) (formatHtmlChangelog (js ''abcd'')) @ js ''...''"
  by (simp add: trimChangelog_def formatHtmlChangelog_def match_br_def match_tag_def
      match_entity_def slice_def js_def)

text \<open>
  Claim C10, amended. When the stripped text is longer than \<open>maxLength\<close> and
  \<open>maxLength\<close> is below 3, the end \<open>maxLength - 3\<close> of the slice is negative and counts
  from the end of the text, and the result is strictly longer than \<open>maxLength\<close>; with
  \<open>maxLength\<close> 2 a stripped text of \<open>n\<close> characters gives \<open>n + 2\<close> characters (all but the
  last one, and the three dots).
\<close>

theorem trimChangelog_negative_slice:
  "int (length (formatHtmlChangelog txt)) > maxLength \<and> maxLength < 3 \<longrightarrow>
     trimChangelog txt maxLength =
       take (nat (int (length (formatHtmlChangelog txt)) + (maxLength - 3)))
         (formatHtmlChangelog txt) @ js ''...'' \<and>
     int (length (trimChangelog txt maxLength)) > maxLength \<and>
     (maxLength = 2 \<longrightarrow>
        length (trimChangelog txt maxLength) = length (formatHtmlChangelog txt) + 2)"
  by (auto simp: trimChangelog_def Let_def slice_0_neg js_def)

theorem trimChangelog_negative_slice_witness:
  "int (length (formatHtmlChangelog (js ''abcd''))) > 2 \<and> (2::int) < 3 \<and>
   trimChangelog (js ''abcd'') 2 = js ''abc...'' \<and>
   length (trimChangelog (js ''abcd'') 2) = 6"
proof -
  have plain: "formatHtmlChangelog (js ''abcd'') = js ''abcd''"
    by (simp add: formatHtmlChangelog_def js_def match_br_def match_tag_def match_entity_def)
  from trimChangelog_negative_slice [of 2 "js ''abcd''"] show ?thesis
    by (simp add: plain) (simp add: js_def)
qed

text \<open>
  Claim C10 as stated gives \<open>n + 1\<close> characters for \<open>maxLength\<close> 2. The stripped text
  \<open>abcd\<close> has 4 characters and its result \<open>abc...\<close> has 6, not 5.
\<close>

theorem trimChangelog_limit_2_counterexample:
  "length (formatHtmlChangelog (js ''abcd'')) = 4 \<and>
   int (length (formatHtmlChangelog (js ''abcd''))) > 2 \<and>
   length (trimChangelog (js ''abcd'') 2) \<noteq> 4 + 1"
  by (simp add: trimChangelog_def formatHtmlChangelog_def match_br_def match_tag_def
      match_entity_def slice_def js_def)

section \<open>Properties of \<open>sendUpdateEmbed\<close>\<close>

lemma prepend_simps [simp]:
  "prepend evs (evs', r) = (evs @ evs', r)"
  "fst (prepend evs x) = evs @ fst x"
  "snd (prepend evs x) = snd x"
  by (simp_all add: prepend_def)

subsection \<open>The loop\<close>

text \<open>The loop calls no API client, and a message it sends is the one of the row's guild.\<close>

lemma loop_no_upstream_call:
  "filter is_upstream_call (fst (sendUpdateEmbed_loop env client dbProject versionData rows)) = []"
  by (induction rows) (auto split: option.splits simp: Let_def)

lemma loop_sends:
  "Send channel m \<in> set (fst (sendUpdateEmbed_loop env client dbProject versionData rows)) \<Longrightarrow>
   \<exists>row guild guildSettings. row \<in> set rows \<and> client (guildId row) = Some guild \<and>
      guild (channelId row) = Some channel \<and> findByPk env (guildId row) = Some guildSettings \<and>
      m = notificationMessage env dbProject versionData guildSettings"
  by (induction rows) (auto split: option.splits if_splits simp: Let_def)

text \<open>A loop over two lists of rows runs the second list unless the first one raised.\<close>

lemma loop_append:
  "sendUpdateEmbed_loop env client dbProject versionData (xs @ ys) =
     (case sendUpdateEmbed_loop env client dbProject versionData xs of
        (evs, Inl e) \<Rightarrow> (evs, Inl e)
      | (evs, Inr u) \<Rightarrow> prepend evs (sendUpdateEmbed_loop env client dbProject versionData ys))"
  by (induction xs) (auto split: option.splits sum.splits prod.splits simp: Let_def prepend_def)

lemma loop_not_in_cache:
  "not_in_cache client trackedProject \<Longrightarrow>
   sendUpdateEmbed_loop env client dbProject versionData (trackedProject # later) =
     prepend [Warn (not_in_cache_warning client trackedProject)]
       (sendUpdateEmbed_loop env client dbProject versionData later)"
  by (auto simp: not_in_cache_def not_in_cache_warning_def split: option.splits)

subsection \<open>The \<open>switch\<close>\<close>

text \<open>
  The \<open>switch\<close> yields a \<open>versionData\<close> exactly when the upstream call succeeds, and
  then it has made one call and logged the record.
\<close>

lemma versionData_one_call:
  assumes "sendUpdateEmbed_versionData env requestedProject dbProject = (evs, Inr (Some versionData))"
  shows "\<exists>call. is_upstream_call call \<and> evs = [call, Debug versionData]"
  using assms
  by (auto simp: sendUpdateEmbed_versionData_def versionData_curseforge_def versionData_modrinth_def
      Let_def split: if_splits option.splits list.splits)

lemma upstream_succeeds_versionData:
  assumes "upstream_succeeds env requestedProject dbProject"
  shows "\<exists>evs versionData.
           sendUpdateEmbed_versionData env requestedProject dbProject = (evs, Inr (Some versionData))"
  using assms
  by (auto simp: upstream_succeeds_def sendUpdateEmbed_versionData_def versionData_curseforge_def
      versionData_modrinth_def Let_def js_def split: if_splits option.splits list.splits)

lemma versionData_upstream_succeeds:
  assumes "sendUpdateEmbed_versionData env requestedProject dbProject = (evs, Inr (Some versionData))"
  shows "upstream_succeeds env requestedProject dbProject"
  using assms
  by (auto simp: upstream_succeeds_def sendUpdateEmbed_versionData_def versionData_curseforge_def
      versionData_modrinth_def Let_def split: if_splits option.splits list.splits)

subsection \<open>The example, run\<close>

lemma example_versionData_run:
  "sendUpdateEmbed_versionData example_env example_project example_dbProject
     = ([Call_getModFileChangelog 238222 4001, Debug example_versionData],
        Inr (Some example_versionData))"
  apply (simp add: sendUpdateEmbed_versionData_def versionData_curseforge_def example_env_def
      example_project_def example_dbProject_def Let_def)
  apply (simp add: example_versionData_def releaseTypeToString_def classIdToUrlString_def
      capitalize_def replace_def charAt_def charCodeAt_def numberToString_def decimal_def
      digits.simps js_def)
  done

lemma example_loop_run:
  "sendUpdateEmbed_loop example_env example_client example_dbProject example_versionData example_rows
     = ([Call_findByPk (js ''g1''),
         Send (js ''#updates'') (compactMessage example_env example_dbProject example_versionData),
         Warn (js ''Could not find guild with ID g2 in cache. Update notification not sent.''),
         Call_findByPk (js ''g3''),
         Send (js ''#mods'')
           (defaultMessage example_env example_dbProject example_versionData
              \<lparr>notificationStyle = js ''default'', changelogMaxLength = 12\<rparr>)],
        Inr ())"
  by (simp add: example_rows_def example_client_def example_env_def notificationMessage_def js_def)

lemma example_upstream_succeeds: "upstream_succeeds example_env example_project example_dbProject"
  by (simp add: upstream_succeeds_def example_env_def example_project_def example_dbProject_def)

lemma example_run:
  "sendUpdateEmbed example_env example_project example_dbProject example_client
     = ([Call_getModFileChangelog 238222 4001,
         Debug example_versionData,
         Call_findAll 7,
         Call_findByPk (js ''g1''),
         Send (js ''#updates'') (compactMessage example_env example_dbProject example_versionData),
         Warn (js ''Could not find guild with ID g2 in cache. Update notification not sent.''),
         Call_findByPk (js ''g3''),
         Send (js ''#mods'')
           (defaultMessage example_env example_dbProject example_versionData
              \<lparr>notificationStyle = js ''default'', changelogMaxLength = 12\<rparr>)],
        Inr ())"
proof -
  have rows: "findAll example_env 7 = example_rows"
    by (simp add: example_env_def)
  have key: "db_id example_dbProject = 7"
    by (simp add: example_dbProject_def)
  show ?thesis
    by (simp add: sendUpdateEmbed_def example_versionData_run rows example_loop_run key)
qed

subsection \<open>One \<open>versionData\<close> for all destinations\<close>

text \<open>
  Claim C1. When the platform tag is supported and the upstream call succeeds, an
  invocation calls the upstream API exactly once and computes one \<open>versionData\<close>
  before the loop: its events are that call, the log line of the record, the query for
  the tracked rows, and then the events of the loop. The loop calls no API client, and
  every message sent is \<open>notificationMessage\<close> (compact or default, by the settings of
  the row's guild) of that same \<open>versionData\<close>.
\<close>

theorem sendUpdateEmbed_one_versionData:
  assumes "upstream_succeeds env requestedProject dbProject"
  shows "\<exists>call versionData loop_evs.
           is_upstream_call call \<and>
           sendUpdateEmbed_versionData env requestedProject dbProject
             = ([call, Debug versionData], Inr (Some versionData)) \<and>
           loop_evs = fst (sendUpdateEmbed_loop env client dbProject versionData
                             (findAll env (db_id dbProject))) \<and>
           fst (sendUpdateEmbed env requestedProject dbProject client)
             = [call, Debug versionData, Call_findAll (db_id dbProject)] @ loop_evs \<and>
           filter is_upstream_call loop_evs = [] \<and>
           length (filter is_upstream_call
                     (fst (sendUpdateEmbed env requestedProject dbProject client))) = 1 \<and>
           (\<forall>channel m.
              Send channel m \<in> set (fst (sendUpdateEmbed env requestedProject dbProject client)) \<longrightarrow>
              (\<exists>row guildSettings.
                  row \<in> set (findAll env (db_id dbProject)) \<and>
                  findByPk env (guildId row) = Some guildSettings \<and>
                  m = notificationMessage env dbProject versionData guildSettings))"
proof -
  from assms obtain evs versionData
    where resolved: "sendUpdateEmbed_versionData env requestedProject dbProject
                       = (evs, Inr (Some versionData))"
    using upstream_succeeds_versionData by blast
  then obtain call where call: "is_upstream_call call" and evs: "evs = [call, Debug versionData]"
    using versionData_one_call by blast
  let ?rows = "findAll env (db_id dbProject)"
  let ?loop = "fst (sendUpdateEmbed_loop env client dbProject versionData ?rows)"
  have trace: "fst (sendUpdateEmbed env requestedProject dbProject client)
                 = [call, Debug versionData, Call_findAll (db_id dbProject)] @ ?loop"
    by (simp add: sendUpdateEmbed_def resolved evs)
  have no_call: "filter is_upstream_call ?loop = []"
    by (rule loop_no_upstream_call)
  have once: "length (filter is_upstream_call
                (fst (sendUpdateEmbed env requestedProject dbProject client))) = 1"
    using call no_call by (simp add: trace)
  have sends: "\<exists>row guildSettings.
                  row \<in> set ?rows \<and> findByPk env (guildId row) = Some guildSettings \<and>
                  m = notificationMessage env dbProject versionData guildSettings"
    if "Send channel m \<in> set (fst (sendUpdateEmbed env requestedProject dbProject client))"
    for channel m
  proof -
    from that call have "Send channel m \<in> set ?loop"
      by (auto simp: trace)
    from loop_sends [OF this] show ?thesis
      by blast
  qed
  from call resolved evs trace no_call once sends show ?thesis
    by blast
qed

theorem sendUpdateEmbed_one_versionData_witness:
  "upstream_succeeds example_env example_project example_dbProject \<and>
   length (filter is_upstream_call
     (fst (sendUpdateEmbed example_env example_project example_dbProject example_client))) = 1 \<and>
   filter is_send (fst (sendUpdateEmbed example_env example_project example_dbProject example_client))
     = [Send (js ''#updates'')
          (notificationMessage example_env example_dbProject example_versionData
             \<lparr>notificationStyle = js ''compact'', changelogMaxLength = 4000\<rparr>),
        Send (js ''#mods'')
          (notificationMessage example_env example_dbProject example_versionData
             \<lparr>notificationStyle = js ''default'', changelogMaxLength = 12\<rparr>)]"
proof -
  note ok = example_upstream_succeeds
  from sendUpdateEmbed_one_versionData [OF ok, of example_client]
  have "length (filter is_upstream_call
     (fst (sendUpdateEmbed example_env example_project example_dbProject example_client))) = 1"
    by blast
  moreover have "filter is_send
       (fst (sendUpdateEmbed example_env example_project example_dbProject example_client))
     = [Send (js ''#updates'')
          (notificationMessage example_env example_dbProject example_versionData
             \<lparr>notificationStyle = js ''compact'', changelogMaxLength = 4000\<rparr>),
        Send (js ''#mods'')
          (notificationMessage example_env example_dbProject example_versionData
             \<lparr>notificationStyle = js ''default'', changelogMaxLength = 12\<rparr>)]"
    by (simp add: example_run notificationMessage_def) (simp add: js_def)
  ultimately show ?thesis
    using ok by simp
qed

subsection \<open>A failed upstream call\<close>

text \<open>
  Claim C2. On either platform branch, when the upstream call returns \<open>null\<close> or a
  status other than 200, the events of \<open>sendUpdateEmbed\<close> are the call and one warning:
  exactly one warning is logged, no database query is made and no message is sent,
  whatever rows are tracked, and the function returns without an exception.
\<close>

theorem sendUpdateEmbed_upstream_failure:
  assumes "upstream_fails env requestedProject dbProject"
  shows "\<exists>call w.
           is_upstream_call call \<and>
           sendUpdateEmbed env requestedProject dbProject client = ([call, Warn w], Inr ()) \<and>
           length (filter is_warning (fst (sendUpdateEmbed env requestedProject dbProject client))) = 1 \<and>
           filter is_query (fst (sendUpdateEmbed env requestedProject dbProject client)) = [] \<and>
           filter is_send (fst (sendUpdateEmbed env requestedProject dbProject client)) = [] \<and>
           snd (sendUpdateEmbed env requestedProject dbProject client) = Inr ()"
proof -
  from assms have "\<exists>call w. is_upstream_call call \<and>
      sendUpdateEmbed_versionData env requestedProject dbProject = ([call, Warn w], Inr None)"
    by (auto simp: upstream_fails_def sendUpdateEmbed_versionData_def versionData_curseforge_def
        versionData_modrinth_def Let_def js_def split: option.splits)
  then obtain call w where call: "is_upstream_call call"
    and early: "sendUpdateEmbed_versionData env requestedProject dbProject = ([call, Warn w], Inr None)"
    by blast
  have run: "sendUpdateEmbed env requestedProject dbProject client = ([call, Warn w], Inr ())"
    by (simp add: sendUpdateEmbed_def early)
  have "\<not> is_warning call" "\<not> is_query call" "\<not> is_send call"
    using call by (cases call; simp)+
  with call run show ?thesis
    by simp
qed

theorem sendUpdateEmbed_upstream_failure_witness:
  "upstream_fails example_env example_project (example_dbProject\<lparr>platform := js ''modrinth''\<rparr>) \<and>
   sendUpdateEmbed example_env example_project (example_dbProject\<lparr>platform := js ''modrinth''\<rparr>)
       example_client
     = ([Call_listProjectVersions 238222,
         Warn (js ''A request to Modrinth timed out while getting a project'' @ [0x27]
                 @ js ''s version information'')],
        Inr ()) \<and>
   upstream_fails example_env (example_project\<lparr>project_id := 1\<rparr>) example_dbProject \<and>
   sendUpdateEmbed example_env (example_project\<lparr>project_id := 1\<rparr>) example_dbProject example_client
     = ([Call_getModFileChangelog 1 4001,
         Warn (js ''Unexpected 404 status code while getting a project files'' @ [0x27]
                 @ js ''s changelog.'')],
        Inr ())"
proof -
  have timeout: "upstream_fails example_env example_project
                   (example_dbProject\<lparr>platform := js ''modrinth''\<rparr>)"
    by (simp add: upstream_fails_def example_env_def example_project_def example_dbProject_def js_def)
  have status: "upstream_fails example_env (example_project\<lparr>project_id := 1\<rparr>) example_dbProject"
    by (simp add: upstream_fails_def example_env_def example_project_def example_dbProject_def)
  have versions: "sendUpdateEmbed_versionData example_env example_project
                    (example_dbProject\<lparr>platform := js ''modrinth''\<rparr>)
     = ([Call_listProjectVersions 238222,
         Warn (js ''A request to Modrinth timed out while getting a project'' @ [0x27]
                 @ js ''s version information'')],
        Inr None)"
    apply (simp add: sendUpdateEmbed_versionData_def example_dbProject_def)
    apply (simp add: js_def versionData_modrinth_def example_env_def example_project_def)
    done
  have changelog: "sendUpdateEmbed_versionData example_env (example_project\<lparr>project_id := 1\<rparr>)
                     example_dbProject
     = ([Call_getModFileChangelog 1 4001,
         Warn (js ''Unexpected 404 status code while getting a project files'' @ [0x27]
                 @ js ''s changelog.'')],
        Inr None)"
    apply (simp add: sendUpdateEmbed_versionData_def versionData_curseforge_def example_env_def
      example_project_def example_dbProject_def Let_def)
    apply (simp add: numberToString_def decimal_def digits.simps js_def)
    done
  from sendUpdateEmbed_upstream_failure [OF timeout, of example_client]
       sendUpdateEmbed_upstream_failure [OF status, of example_client]
  show ?thesis
    using timeout status by (simp add: sendUpdateEmbed_def versions changelog)
qed

subsection \<open>The \<open>versionData\<close> of a CurseForge project\<close>

text \<open>
  Claim C3. For the platform tag \<open>curseforge\<close> and a changelog lookup that succeeds,
  \<open>sendUpdateEmbed\<close> builds (and logs, and hands to the loop) a \<open>versionData\<close> whose
  changelog is the field \<open>data\<close> of the parsed response; whose date, name, number and
  type come from the last element of \<open>latestFiles\<close>, the release type 1, 2, 3 or other
  giving \<open>Release\<close>, \<open>Beta\<close>, \<open>Alpha\<close> or the capitalized unknown marker
  \<open>UnknownReleaseType\<close>; whose icon is the URL of the project's logo; and whose URL is
  made of the segment of the class id, the slug, and the \<open>fileId\<close> of the first element
  of \<open>latestFilesIndexes\<close> as the template literal writes it, which for a safe integer
  is its decimal numeral.
\<close>

theorem sendUpdateEmbed_curseforge_versionData:
  assumes "platform dbProject = js ''curseforge''"
    and "latestFiles requestedProject \<noteq> []"
    and "getModFileChangelog env (project_id requestedProject)
           (file_id (last (latestFiles requestedProject))) = Some response"
    and "statusCode response = 200"
    and "logo requestedProject = Some projectLogo"
    and "latestFilesIndexes requestedProject = firstIndex # otherIndexes"
  shows "\<exists>versionData.
           sendUpdateEmbed_versionData env requestedProject dbProject
             = ([Call_getModFileChangelog (project_id requestedProject)
                   (file_id (last (latestFiles requestedProject))),
                 Debug versionData],
                Inr (Some versionData)) \<and>
           sendUpdateEmbed env requestedProject dbProject client
             = prepend
                 [Call_getModFileChangelog (project_id requestedProject)
                    (file_id (last (latestFiles requestedProject))),
                  Debug versionData,
                  Call_findAll (db_id dbProject)]
                 (sendUpdateEmbed_loop env client dbProject versionData
                    (findAll env (db_id dbProject))) \<and>
           changelog versionData = data (getJSONResponse_changelog env (body response)) \<and>
           date versionData = fileDate (last (latestFiles requestedProject)) \<and>
           name versionData = displayName (last (latestFiles requestedProject)) \<and>
           number versionData = fileName (last (latestFiles requestedProject)) \<and>
           type versionData
             = capitalize (releaseTypeToString (releaseType (last (latestFiles requestedProject)))) \<and>
           type versionData
             = (if releaseType (last (latestFiles requestedProject)) = 1 then js ''Release''
                else if releaseType (last (latestFiles requestedProject)) = 2 then js ''Beta''
                else if releaseType (last (latestFiles requestedProject)) = 3 then js ''Alpha''
                else js ''UnknownReleaseType'') \<and>
           iconURL versionData = logo_url projectLogo \<and>
           url versionData
             = js ''https://www.curseforge.com/minecraft/''
                 @ classIdToUrlString (classId requestedProject)
                 @ js ''/'' @ slug requestedProject
                 @ js ''/files/'' @ numberToString (toString_unsafe env) (fileId firstIndex) \<and>
           (\<bar>fileId firstIndex\<bar> < 2 ^ 53 \<longrightarrow>
              url versionData
                = js ''https://www.curseforge.com/minecraft/''
                    @ classIdToUrlString (classId requestedProject)
                    @ js ''/'' @ slug requestedProject
                    @ js ''/files/'' @ decimal (fileId firstIndex))"
proof -
  let ?file = "last (latestFiles requestedProject)"
  let ?vd = "\<lparr>changelog = data (getJSONResponse_changelog env (body response)),
              date = fileDate ?file,
              iconURL = logo_url projectLogo,
              name = displayName ?file,
              number = fileName ?file,
              type = capitalize (releaseTypeToString (releaseType ?file)),
              url = js ''https://www.curseforge.com/minecraft/''
                      @ classIdToUrlString (classId requestedProject)
                      @ js ''/'' @ slug requestedProject
                      @ js ''/files/''
                      @ numberToString (toString_unsafe env) (fileId firstIndex)\<rparr>"
  have stage: "sendUpdateEmbed_versionData env requestedProject dbProject
                 = ([Call_getModFileChangelog (project_id requestedProject) (file_id ?file), Debug ?vd],
                    Inr (Some ?vd))"
    using assms by (simp add: sendUpdateEmbed_versionData_def versionData_curseforge_def Let_def)
  have run: "sendUpdateEmbed env requestedProject dbProject client
               = prepend
                   [Call_getModFileChangelog (project_id requestedProject) (file_id ?file),
                    Debug ?vd, Call_findAll (db_id dbProject)]
                   (sendUpdateEmbed_loop env client dbProject ?vd (findAll env (db_id dbProject)))"
    by (simp add: sendUpdateEmbed_def stage prepend_def)
  have types: "capitalize (releaseTypeToString code)
                 = (if code = 1 then js ''Release''
                    else if code = 2 then js ''Beta''
                    else if code = 3 then js ''Alpha''
                    else js ''UnknownReleaseType'')" for code
    by (simp add: releaseTypeToString_def js_def capitalize_Cons)
  show ?thesis
    apply (rule exI [of _ ?vd])
    apply (simp only: stage run)
    apply (simp add: types numberToString_def)
    done
qed

theorem sendUpdateEmbed_curseforge_versionData_witness:
  "platform example_dbProject = js ''curseforge'' \<and>
   latestFiles example_project \<noteq> [] \<and>
   getModFileChangelog example_env (project_id example_project)
       (file_id (last (latestFiles example_project)))
     = Some \<lparr>statusCode = 200, body = js ''Fixed bug<br>Added <b>feature</b>''\<rparr> \<and>
   logo example_project = Some \<lparr>logo_url = js ''https://media.forgecdn.net/logo.png''\<rparr> \<and>
   latestFilesIndexes example_project = [\<lparr>fileId = 4002\<rparr>, \<lparr>fileId = 4001\<rparr>] \<and>
   \<bar>fileId \<lparr>fileId = 4002\<rparr>\<bar> < 2 ^ 53 \<and>
   sendUpdateEmbed_versionData example_env example_project example_dbProject
     = ([Call_getModFileChangelog 238222 4001, Debug example_versionData],
        Inr (Some example_versionData)) \<and>
   type example_versionData = js ''Beta'' \<and>
   url example_versionData = js ''https://www.curseforge.com/minecraft/mc-mods/example/files/4002''"
proof -
  have tag: "platform example_dbProject = js ''curseforge''"
    by (simp add: example_dbProject_def)
  have files: "latestFiles example_project \<noteq> []"
    by (simp add: example_project_def)
  have answer: "getModFileChangelog example_env (project_id example_project)
       (file_id (last (latestFiles example_project)))
     = Some \<lparr>statusCode = 200, body = js ''Fixed bug<br>Added <b>feature</b>''\<rparr>"
    by (simp add: example_env_def example_project_def)
  have ok: "statusCode \<lparr>statusCode = 200, body = js ''Fixed bug<br>Added <b>feature</b>''\<rparr> = 200"
    by simp
  have logo: "logo example_project = Some \<lparr>logo_url = js ''https://media.forgecdn.net/logo.png''\<rparr>"
    by (simp add: example_project_def)
  have indexes: "latestFilesIndexes example_project = \<lparr>fileId = 4002\<rparr> # [\<lparr>fileId = 4001\<rparr>]"
    by (simp add: example_project_def)
  from sendUpdateEmbed_curseforge_versionData [OF tag files answer ok logo indexes, of example_client]
  obtain versionData where
    "sendUpdateEmbed_versionData example_env example_project example_dbProject
       = ([Call_getModFileChangelog (project_id example_project)
             (file_id (last (latestFiles example_project))), Debug versionData],
          Inr (Some versionData))"
    by blast
  moreover have "type example_versionData = js ''Beta''"
    "url example_versionData = js ''https://www.curseforge.com/minecraft/mc-mods/example/files/4002''"
    by (simp_all add: example_versionData_def)
  ultimately show ?thesis
    using tag files answer logo indexes by (simp add: example_versionData_run)
qed

subsection \<open>A destination that the cache does not have\<close>

text \<open>
  Claim C4. In the loop of one invocation, a tracked row whose guild or channel is not
  in the client's cache gets a warning and nothing else, no message is sent for it, and
  the loop goes on: the rows after it are processed as a loop over them alone would
  process them, so each of them can still get its message.
\<close>

theorem sendUpdateEmbed_loop_skips_missing:
  assumes "sendUpdateEmbed_loop env client dbProject versionData earlier = (evs, Inr ())"
    and "not_in_cache client trackedProject"
  shows "sendUpdateEmbed_loop env client dbProject versionData (earlier @ trackedProject # later)
           = prepend (evs @ [Warn (not_in_cache_warning client trackedProject)])
               (sendUpdateEmbed_loop env client dbProject versionData later)"
  using assms
  by (simp add: loop_append loop_not_in_cache prepend_def del: sendUpdateEmbed_loop.simps)

theorem sendUpdateEmbed_loop_skips_missing_witness:
  "sendUpdateEmbed_loop example_env example_client example_dbProject example_versionData
       [\<lparr>guildId = js ''g1'', channelId = js ''c1''\<rparr>]
     = ([Call_findByPk (js ''g1''),
         Send (js ''#updates'') (compactMessage example_env example_dbProject example_versionData)],
        Inr ()) \<and>
   not_in_cache example_client \<lparr>guildId = js ''g2'', channelId = js ''c2''\<rparr> \<and>
   sendUpdateEmbed_loop example_env example_client example_dbProject example_versionData
       ([\<lparr>guildId = js ''g1'', channelId = js ''c1''\<rparr>]
        @ \<lparr>guildId = js ''g2'', channelId = js ''c2''\<rparr>
        # [\<lparr>guildId = js ''g3'', channelId = js ''c3''\<rparr>])
     = ([Call_findByPk (js ''g1''),
         Send (js ''#updates'') (compactMessage example_env example_dbProject example_versionData),
         Warn (js ''Could not find guild with ID g2 in cache. Update notification not sent.''),
         Call_findByPk (js ''g3''),
         Send (js ''#mods'')
           (defaultMessage example_env example_dbProject example_versionData
              \<lparr>notificationStyle = js ''default'', changelogMaxLength = 12\<rparr>)],
        Inr ())"
proof -
  have first: "sendUpdateEmbed_loop example_env example_client example_dbProject example_versionData
       [\<lparr>guildId = js ''g1'', channelId = js ''c1''\<rparr>]
     = ([Call_findByPk (js ''g1''),
         Send (js ''#updates'') (compactMessage example_env example_dbProject example_versionData)],
        Inr ())"
    by (simp add: example_client_def example_env_def notificationMessage_def js_def)
  have missing: "not_in_cache example_client \<lparr>guildId = js ''g2'', channelId = js ''c2''\<rparr>"
    by (simp add: not_in_cache_def example_client_def js_def)
  have warning: "not_in_cache_warning example_client \<lparr>guildId = js ''g2'', channelId = js ''c2''\<rparr>
     = js ''Could not find guild with ID g2 in cache. Update notification not sent.''"
    by (simp add: not_in_cache_warning_def example_client_def js_def)
  have third: "sendUpdateEmbed_loop example_env example_client example_dbProject example_versionData
       [\<lparr>guildId = js ''g3'', channelId = js ''c3''\<rparr>]
     = ([Call_findByPk (js ''g3''),
         Send (js ''#mods'')
           (defaultMessage example_env example_dbProject example_versionData
              \<lparr>notificationStyle = js ''default'', changelogMaxLength = 12\<rparr>)],
        Inr ())"
    by (simp add: example_client_def example_env_def notificationMessage_def js_def)
  from sendUpdateEmbed_loop_skips_missing [OF first missing,
      of "[\<lparr>guildId = js ''g3'', channelId = js ''c3''\<rparr>]"]
  show ?thesis
    using first missing by (simp only: warning third prepend_simps append.simps)
qed

section \<open>Properties of \<open>formatHtmlChangelog\<close>\<close>

subsection \<open>A replacement pass over two pieces of text\<close>


subsection \<open>Matches do not cross a line terminator or the start of another match\<close>


lemma wordChar_not_special:
  "wordChar c \<Longrightarrow> c \<noteq> 0x3B \<and> c \<noteq> 0x26 \<and> c \<noteq> 0x3C \<and> c \<noteq> 0x3E \<and> \<not> lineTerminator c"
  by (auto simp: wordChar_def lineTerminator_def)















lemma lazy_word_semicolon_word:
  "list_all wordChar w \<Longrightarrow> lazy_word_semicolon (w @ 0x3B # ys) = Some (Suc (length w))"
  by (induction w) (auto dest: wordChar_not_special)


subsection \<open>What the three expressions match\<close>

text \<open>
  The match of \<open><.*?>\<close> at a \<open><\<close> ends at the first \<open>>\<close>, with no line
  terminator in between; the match of \<open>&\\w*?;\<close> at a \<open>&\<close> is word characters up
  to a \<open>;\<close>.
\<close>

lemma lazy_dot_gt_shortest:
  "\<forall>c \<in> set inner. c \<noteq> 0x3E \<and> \<not> lineTerminator c \<Longrightarrow>
   lazy_dot_gt (inner @ 0x3E # rest) = Some (Suc (length inner))"
  by (induction inner) simp_all

lemma lazy_dot_gt_Some:
  "lazy_dot_gt s = Some n \<Longrightarrow>
   \<exists>inner rest. s = inner @ 0x3E # rest \<and> n = Suc (length inner) \<and>
      (\<forall>c \<in> set inner. c \<noteq> 0x3E \<and> \<not> lineTerminator c)"
proof (induction s arbitrary: n)
  case Nil
  then show ?case by simp
next
  case (Cons c cs)
  show ?case
  proof (cases "c = 0x3E")
    case True
    with Cons.prems have "n = Suc 0" by simp
    with True show ?thesis
      by (intro exI [of _ "[]"] exI [of _ cs]) simp
  next
    case False
    with Cons.prems obtain k where plain: "\<not> lineTerminator c"
      and k: "lazy_dot_gt cs = Some k" and n: "n = Suc k"
      by (auto split: if_splits)
    from Cons.IH [OF k] obtain inner rest where "cs = inner @ 0x3E # rest" "k = Suc (length inner)"
      "\<forall>c \<in> set inner. c \<noteq> 0x3E \<and> \<not> lineTerminator c"
      by blast
    with False plain n show ?thesis
      by (intro exI [of _ "c # inner"] exI [of _ rest]) simp
  qed
qed

lemma match_tag_iff:
  "match_tag s = Some n \<longleftrightarrow>
     (\<exists>inner rest. s = [0x3C] @ inner @ [0x3E] @ rest \<and> n = length inner + 2 \<and>
        (\<forall>c \<in> set inner. c \<noteq> 0x3E \<and> \<not> lineTerminator c))"
proof
  assume "match_tag s = Some n"
  then obtain cs k where s: "s = 0x3C # cs" and k: "lazy_dot_gt cs = Some k" and n: "n = Suc k"
    by (auto simp: match_tag_def split: list.splits if_splits)
  from lazy_dot_gt_Some [OF k] s n
  show "\<exists>inner rest. s = [0x3C] @ inner @ [0x3E] @ rest \<and> n = length inner + 2 \<and>
        (\<forall>c \<in> set inner. c \<noteq> 0x3E \<and> \<not> lineTerminator c)"
    by auto
next
  assume "\<exists>inner rest. s = [0x3C] @ inner @ [0x3E] @ rest \<and> n = length inner + 2 \<and>
        (\<forall>c \<in> set inner. c \<noteq> 0x3E \<and> \<not> lineTerminator c)"
  then obtain inner rest where "s = 0x3C # inner @ 0x3E # rest" "n = length inner + 2"
    "\<forall>c \<in> set inner. c \<noteq> 0x3E \<and> \<not> lineTerminator c"
    by auto
  then show "match_tag s = Some n"
    by (simp add: match_tag_def lazy_dot_gt_shortest)
qed

lemma lazy_word_semicolon_Some:
  "lazy_word_semicolon s = Some n \<Longrightarrow>
   \<exists>w rest. s = w @ 0x3B # rest \<and> n = Suc (length w) \<and> list_all wordChar w"
proof (induction s arbitrary: n)
  case Nil
  then show ?case by simp
next
  case (Cons c cs)
  show ?case
  proof (cases "c = 0x3B")
    case True
    with Cons.prems have "n = Suc 0" by simp
    with True show ?thesis
      by (intro exI [of _ "[]"] exI [of _ cs]) simp
  next
    case False
    with Cons.prems obtain k where word: "wordChar c"
      and k: "lazy_word_semicolon cs = Some k" and n: "n = Suc k"
      by (auto split: if_splits)
    from Cons.IH [OF k] obtain w rest where "cs = w @ 0x3B # rest" "k = Suc (length w)"
      "list_all wordChar w"
      by blast
    with False word n show ?thesis
      by (intro exI [of _ "c # w"] exI [of _ rest]) simp
  qed
qed

lemma match_entity_iff:
  "match_entity s = Some n \<longleftrightarrow>
     (\<exists>w rest. s = [0x26] @ w @ [0x3B] @ rest \<and> n = length w + 2 \<and> list_all wordChar w)"
proof
  assume "match_entity s = Some n"
  then obtain cs k where s: "s = 0x26 # cs" and k: "lazy_word_semicolon cs = Some k" and n: "n = Suc k"
    by (auto simp: match_entity_def split: list.splits if_splits)
  from lazy_word_semicolon_Some [OF k] s n
  show "\<exists>w rest. s = [0x26] @ w @ [0x3B] @ rest \<and> n = length w + 2 \<and> list_all wordChar w"
    by auto
next
  assume "\<exists>w rest. s = [0x26] @ w @ [0x3B] @ rest \<and> n = length w + 2 \<and> list_all wordChar w"
  then obtain w rest where "s = 0x26 # w @ 0x3B # rest" "n = length w + 2" "list_all wordChar w"
    by auto
  then show "match_entity s = Some n"
    by (simp add: match_entity_def lazy_word_semicolon_word)
qed

subsection \<open>No tag is left\<close>
















subsection \<open>When no reference is left\<close>

text \<open>
  The two notions in terms of the text, and: a pass of the last expression over a text
  that has no reference directly after an \<open>&\<close> and word characters leaves a text where
  the expression matches nowhere.
\<close>

lemma words_then_reference_iff:
  "words_then_reference s \<longleftrightarrow>
     (\<exists>u w rest. s = u @ [0x26] @ w @ [0x3B] @ rest \<and> list_all wordChar u \<and> list_all wordChar w)"
proof (induction s)
  case Nil
  then show ?case by simp
next
  case (Cons c cs)
  show ?case
  proof
    assume "words_then_reference (c # cs)"
    then consider n where "match_entity (c # cs) = Some n"
      | "wordChar c" "words_then_reference cs"
      by auto
    then show "\<exists>u w rest. c # cs = u @ [0x26] @ w @ [0x3B] @ rest \<and>
                 list_all wordChar u \<and> list_all wordChar w"
    proof cases
      case 1
      then obtain w rest where "c # cs = [0x26] @ w @ [0x3B] @ rest" "list_all wordChar w"
        by (auto simp: match_entity_iff)
      then show ?thesis
        by (intro exI [of _ "[]"] exI [of _ w] exI [of _ rest]) simp
    next
      case 2
      with Cons.IH obtain u w rest where "cs = u @ [0x26] @ w @ [0x3B] @ rest"
        "list_all wordChar u" "list_all wordChar w"
        by blast
      with 2 show ?thesis
        by (intro exI [of _ "c # u"] exI [of _ w] exI [of _ rest]) simp
    qed
  next
    assume "\<exists>u w rest. c # cs = u @ [0x26] @ w @ [0x3B] @ rest \<and>
              list_all wordChar u \<and> list_all wordChar w"
    then obtain u w rest where split: "c # cs = u @ [0x26] @ w @ [0x3B] @ rest"
      and u: "list_all wordChar u" and w: "list_all wordChar w"
      by blast
    show "words_then_reference (c # cs)"
    proof (cases u)
      case Nil
      with split w have "match_entity (c # cs) = Some (length w + 2)"
        by (subst match_entity_iff) auto
      then show ?thesis by simp
    next
      case (Cons d u')
      with split u have "wordChar c" "cs = u' @ [0x26] @ w @ [0x3B] @ rest" "list_all wordChar u'"
        by auto
      with w Cons.IH have "words_then_reference cs"
        by blast
      with \<open>wordChar c\<close> show ?thesis by simp
    qed
  qed
qed

lemma reference_after_unfinished_iff:
  "reference_after_unfinished s \<longleftrightarrow>
     (\<exists>before u w rest. s = before @ [0x26] @ u @ [0x26] @ w @ [0x3B] @ rest \<and>
        list_all wordChar u \<and> list_all wordChar w)"
proof (induction s)
  case Nil
  then show ?case by simp
next
  case (Cons c cs)
  show ?case
  proof
    assume "reference_after_unfinished (c # cs)"
    then consider "c = 0x26" "words_then_reference cs" | "reference_after_unfinished cs"
      by auto
    then show "\<exists>before u w rest. c # cs = before @ [0x26] @ u @ [0x26] @ w @ [0x3B] @ rest \<and>
                 list_all wordChar u \<and> list_all wordChar w"
    proof cases
      case 1
      then obtain u w rest where "cs = u @ [0x26] @ w @ [0x3B] @ rest"
        "list_all wordChar u" "list_all wordChar w"
        by (auto simp: words_then_reference_iff)
      with 1 show ?thesis
        by (intro exI [of _ "[]"] exI [of _ u] exI [of _ w] exI [of _ rest]) simp
    next
      case 2
      with Cons.IH obtain before u w rest
        where "cs = before @ [0x26] @ u @ [0x26] @ w @ [0x3B] @ rest"
          "list_all wordChar u" "list_all wordChar w"
        by blast
      then show ?thesis
        by (intro exI [of _ "c # before"] exI [of _ u] exI [of _ w] exI [of _ rest]) simp
    qed
  next
    assume "\<exists>before u w rest. c # cs = before @ [0x26] @ u @ [0x26] @ w @ [0x3B] @ rest \<and>
              list_all wordChar u \<and> list_all wordChar w"
    then obtain before u w rest
      where split: "c # cs = before @ [0x26] @ u @ [0x26] @ w @ [0x3B] @ rest"
        and u: "list_all wordChar u" and w: "list_all wordChar w"
      by blast
    show "reference_after_unfinished (c # cs)"
    proof (cases before)
      case Nil
      with split have "c = 0x26" "cs = u @ [0x26] @ w @ [0x3B] @ rest"
        by auto
      with u w have "words_then_reference cs"
        by (subst words_then_reference_iff) blast
      with \<open>c = 0x26\<close> show ?thesis by simp
    next
      case (Cons d before')
      with split have "cs = before' @ [0x26] @ u @ [0x26] @ w @ [0x3B] @ rest"
        by auto
      with u w Cons.IH have "reference_after_unfinished cs"
        by blast
      then show ?thesis by simp
    qed
  qed
qed






subsection \<open>The claim\<close>





end
